theory Spec2Isabelle
  imports Main "HOL-Library.Multiset" "HOL-Library.Sublist"
begin

section \<open>Python strings\<close>

text \<open>
  Strings are modelled as \<^typ>\<open>string\<close> (lists of 8-bit characters); the model covers
  ASCII text. \<open>str.lower()\<close> maps the letters \<open>A\<close>..\<open>Z\<close> to \<open>a\<close>..\<open>z\<close> and leaves
  every other character alone.
\<close>

definition lower_char :: "char \<Rightarrow> char" where
  "lower_char c =
     (let n = (of_char c :: nat) in if 65 \<le> n \<and> n \<le> 90 then char_of (n + 32) else c)"

definition lower :: "string \<Rightarrow> string" where
  "lower s = map lower_char s"

text \<open>
  \<open>sep.join(parts)\<close>: the parts in order, with \<open>sep\<close> between two neighbours (no
  separator before the first part or after the last one).
\<close>

fun join :: "string \<Rightarrow> string list \<Rightarrow> string" where
  "join sep [] = []"
| "join sep [x] = x"
| "join sep (x # y # ys) = x @ sep @ join sep (y # ys)"

text \<open>
  \<open>a in b\<close> on strings: \<open>a\<close> occurs in \<open>b\<close> as a contiguous run of characters.
  \<open>starts_with b a\<close> tests whether \<open>b\<close> begins with \<open>a\<close>; \<open>py_in a b\<close> tries every
  start position of \<open>b\<close> from the left.
\<close>

fun starts_with :: "string \<Rightarrow> string \<Rightarrow> bool" where
  "starts_with b [] = True"
| "starts_with [] (x # xs) = False"
| "starts_with (y # ys) (x # xs) = (x = y \<and> starts_with ys xs)"

fun py_in :: "string \<Rightarrow> string \<Rightarrow> bool" where
  "py_in a [] = (a = [])"
| "py_in a (y # ys) = (starts_with (y # ys) a \<or> py_in a ys)"

text \<open>
  \<open>str.split()\<close> without arguments: the maximal runs of non-whitespace characters, in
  order. The ASCII characters for which \<open>str.isspace\<close> holds are the codes 9 to 13, 28 to
  31 and 32.
\<close>

definition is_space :: "char \<Rightarrow> bool" where
  "is_space c =
     (let n = (of_char c :: nat) in (9 \<le> n \<and> n \<le> 13) \<or> (28 \<le> n \<and> n \<le> 32))"

fun split_from :: "string \<Rightarrow> string \<Rightarrow> string list" where
  "split_from w [] = (if w = [] then [] else [w])"
| "split_from w (c # cs) =
     (if is_space c then (if w = [] then split_from [] cs else w # split_from [] cs)
      else split_from (w @ [c]) cs)"

definition split :: "string \<Rightarrow> string list" where
  "split s = split_from [] s"


section \<open>Keyword extraction and keyword score (resume\_tailor.py)\<close>

text \<open>
  \<^verbatim>\<open>
  def _calculate_keyword_score(self, text_list, keywords):
      score = 0
      text_content = " ".join(text_list).lower()
      for keyword in keywords:
          if keyword.lower() in text_content:
              score += 1
      return score
  \<close>
  The loop is \<open>score_loop\<close>, with the running score as its last argument.
\<close>

fun score_loop :: "string \<Rightarrow> string list \<Rightarrow> int \<Rightarrow> int" where
  "score_loop text_content [] score = score"
| "score_loop text_content (keyword # keywords) score =
     score_loop text_content keywords
       (if py_in (lower keyword) text_content then score + 1 else score)"

definition calculate_keyword_score :: "string list \<Rightarrow> string list \<Rightarrow> int" where
  "calculate_keyword_score text_list keywords =
     score_loop (lower (join '' '' text_list)) keywords 0"

text \<open>
  \<^verbatim>\<open>
  def _extract_keywords_from_job_description(self, job_description):
      return [word.lower() for word in job_description.split() if len(word) > 2]
  \<close>
\<close>

definition extract_keywords_from_job_description :: "string \<Rightarrow> string list" where
  "extract_keywords_from_job_description job_description =
     map lower (filter (\<lambda>word. length word > 2) (split job_description))"

text \<open>
  The spec's wording of the score, for comparison with the code: a keyword counts when its
  lowercasing is a substring of the lowercased text. \<open>matches text k\<close> is that test on an
  already lowercased text; \<open>spec_score_concat\<close> takes the text to be the fragments put
  together with nothing between them, \<open>spec_score_joined\<close> takes it to be the fragments
  separated by single spaces.
\<close>

definition matches :: "string \<Rightarrow> string \<Rightarrow> bool" where
  "matches text_content keyword = py_in (lower keyword) text_content"

definition spec_score_concat :: "string list \<Rightarrow> string list \<Rightarrow> int" where
  "spec_score_concat T K = int (length (filter (matches (lower (concat T))) K))"

definition spec_score_joined :: "string list \<Rightarrow> string list \<Rightarrow> int" where
  "spec_score_joined T K = int (length (filter (matches (lower (join '' '' T))) K))"


section \<open>Profiles and tailoring (resume\_tailor.py)\<close>

text \<open>
  A profile is the dictionary that \<open>load_profile\<close> returns. The model covers profiles of
  the shape the code reads: the five top-level sections, and in every entry the keys the
  code indexes directly. The keys read with \<open>.get(key, [])\<close> are optional
  (\<open>None\<close>: the key is absent). The skills dictionary is the list of its items in
  iteration order.
\<close>

record personal_info =
  pi_name :: string
  pi_email :: string
  pi_phone :: string
  pi_linkedin :: string
  pi_github :: string

record education_entry =
  edu_degree :: string
  edu_major :: string
  edu_institution :: string
  edu_location :: string
  edu_start_date :: string
  edu_end_date :: string
  edu_gpa :: "string option"
  edu_honors :: "string option"

record experience =
  exp_title :: string
  exp_company :: string
  exp_location :: string
  exp_start_date :: string
  exp_end_date :: "string option"
  exp_description :: "string list option"
  exp_technologies :: "string list option"

record project =
  proj_name :: string
  proj_start_date :: string
  proj_end_date :: "string option"
  proj_description :: "string list option"
  proj_technologies :: "string list option"
  proj_link :: "string option"

type_synonym skills_dict = "(string \<times> string list) list"

record profile =
  personal_info :: personal_info
  education :: "education_entry list"
  work_experience :: "experience list"
  projects :: "project list"
  skills :: skills_dict

text \<open>The tailored resume is a dictionary with the same five keys.\<close>

type_synonym tailored_resume = profile

datatype py_error = AttributeError string | ValueError string | JSONDecodeError string | OSError string

text \<open>\<open>d.get(key, [])\<close> on an optional list.\<close>

definition get_list :: "string list option \<Rightarrow> string list" where
  "get_list v = (case v of None \<Rightarrow> [] | Some l \<Rightarrow> l)"

definition exp_text :: "experience \<Rightarrow> string list" where
  "exp_text exp =
     [exp_title exp, exp_company exp] @ get_list (exp_description exp)
       @ get_list (exp_technologies exp)"

definition proj_text :: "project \<Rightarrow> string list" where
  "proj_text proj =
     [proj_name proj] @ get_list (proj_description proj) @ get_list (proj_technologies proj)"

text \<open>
  \<open>scored.sort(key=lambda x: x[0], reverse=True)\<close>: Python's sort is stable, also with
  \<open>reverse=True\<close> (elements with equal keys keep their order). It is modelled by the
  stable insertion sort \<^const>\<open>sort_key\<close> on the negated score.
\<close>

definition sort_by_score_reverse :: "(int \<times> 'a) list \<Rightarrow> (int \<times> 'a) list" where
  "sort_by_score_reverse scored = sort_key (\<lambda>x. - fst x) scored"

text \<open>
  \<^verbatim>\<open>
  scored_experiences = []
  for exp in self.profile_data["work_experience"]:
      exp_text = [exp["title"], exp["company"]] + exp.get("description", [])
                 + exp.get("technologies", [])
      score = self._calculate_keyword_score(exp_text, job_keywords)
      scored_experiences.append((score, exp))
  scored_experiences.sort(key=lambda x: x[0], reverse=True)
  tailored_resume["work_experience"] =
      [exp for score, exp in scored_experiences if score > 0 or len(scored_experiences) <= 3]
  \<close>
  and the same for projects, with \<open>proj_text\<close> and the bound 2.
\<close>

definition tailor_work_experience :: "string list \<Rightarrow> experience list \<Rightarrow> experience list" where
  "tailor_work_experience job_keywords exps =
     (let scored_experiences =
            sort_by_score_reverse
              (map (\<lambda>exp. (calculate_keyword_score (exp_text exp) job_keywords, exp)) exps)
      in map snd (filter (\<lambda>(score, exp). score > 0 \<or> length scored_experiences \<le> 3)
                    scored_experiences))"

definition tailor_projects :: "string list \<Rightarrow> project list \<Rightarrow> project list" where
  "tailor_projects job_keywords projs =
     (let scored_projects =
            sort_by_score_reverse
              (map (\<lambda>proj. (calculate_keyword_score (proj_text proj) job_keywords, proj)) projs)
      in map snd (filter (\<lambda>(score, proj). score > 0 \<or> length scored_projects \<le> 2)
                    scored_projects))"

text \<open>
  \<^verbatim>\<open>
  for category, skills_list in self.profile_data["skills"].items():
      for skill in skills_list:
          if any(keyword.lower() in skill.lower() for keyword in job_keywords):
              tailored_resume["skills"].insert(0, skill)
          else:
              tailored_resume["skills"].append(skill)
  \<close>
  \<open>tailored_resume["skills"]\<close> is the \<open>defaultdict(list)\<close> itself, not one of its
  lists. A \<open>defaultdict\<close> has no method \<open>insert\<close> and no method \<open>append\<close>: looking
  either up raises \<open>AttributeError\<close>.
\<close>

definition defaultdict_insert :: "skills_dict \<Rightarrow> nat \<Rightarrow> string \<Rightarrow> py_error + skills_dict" where
  "defaultdict_insert d i x = Inl (AttributeError ''insert'')"

definition defaultdict_append :: "skills_dict \<Rightarrow> string \<Rightarrow> py_error + skills_dict" where
  "defaultdict_append d x = Inl (AttributeError ''append'')"

definition skill_matches :: "string list \<Rightarrow> string \<Rightarrow> bool" where
  "skill_matches job_keywords skill =
     list_ex (\<lambda>keyword. py_in (lower keyword) (lower skill)) job_keywords"

fun tailor_skills_list :: "string list \<Rightarrow> string list \<Rightarrow> skills_dict \<Rightarrow> py_error + skills_dict" where
  "tailor_skills_list job_keywords [] d = Inr d"
| "tailor_skills_list job_keywords (skill # skills_list) d =
     (case (if skill_matches job_keywords skill then defaultdict_insert d 0 skill
            else defaultdict_append d skill) of
        Inl e \<Rightarrow> Inl e
      | Inr d' \<Rightarrow> tailor_skills_list job_keywords skills_list d')"

fun tailor_skills :: "string list \<Rightarrow> skills_dict \<Rightarrow> skills_dict \<Rightarrow> py_error + skills_dict" where
  "tailor_skills job_keywords [] d = Inr d"
| "tailor_skills job_keywords ((category, skills_list) # items) d =
     (case tailor_skills_list job_keywords skills_list d of
        Inl e \<Rightarrow> Inl e
      | Inr d' \<Rightarrow> tailor_skills job_keywords items d')"

definition tailor_resume :: "profile \<Rightarrow> string \<Rightarrow> py_error + tailored_resume" where
  "tailor_resume profile_data job_description =
     (let job_keywords = extract_keywords_from_job_description job_description;
          tailored_work = tailor_work_experience job_keywords (work_experience profile_data);
          tailored_projects = tailor_projects job_keywords (projects profile_data)
      in case tailor_skills job_keywords (skills profile_data) [] of
           Inl e \<Rightarrow> Inl e
         | Inr d \<Rightarrow>
             Inr \<lparr>personal_info = personal_info profile_data,
                  education = education profile_data,
                  work_experience = tailored_work,
                  projects = tailored_projects,
                  skills = d\<rparr>)"

text \<open>
  The per-entry score of a work experience against a job description, and the list that
  the work-experience step computes for a profile.
\<close>

definition work_score :: "string \<Rightarrow> experience \<Rightarrow> int" where
  "work_score job_description exp =
     calculate_keyword_score (exp_text exp)
       (extract_keywords_from_job_description job_description)"

definition tailored_work_experience :: "profile \<Rightarrow> string \<Rightarrow> experience list" where
  "tailored_work_experience profile_data job_description =
     tailor_work_experience (extract_keywords_from_job_description job_description)
       (work_experience profile_data)"

text \<open>Example data: the profiles of the spec's end-to-end scenarios.\<close>

definition example_info :: personal_info where
  "example_info =
     \<lparr>pi_name = ''Test User'', pi_email = ''test@example.com'', pi_phone = ''123-456-7890'',
      pi_linkedin = ''http://linkedin.com/in/test'', pi_github = ''http://github.com/test''\<rparr>"

definition example_exp :: "string \<Rightarrow> string \<Rightarrow> string list \<Rightarrow> experience" where
  "example_exp title company_name technologies =
     \<lparr>exp_title = title, exp_company = company_name, exp_location = ''Remote'',
      exp_start_date = ''2020-01-01'', exp_end_date = None,
      exp_description = None, exp_technologies = Some technologies\<rparr>"

definition python_profile :: profile where
  "python_profile =
     \<lparr>personal_info = example_info, education = [], work_experience = [], projects = [],
      skills = [(''Languages'', [''Python''])]\<rparr>"

definition four_jobs_profile :: profile where
  "four_jobs_profile =
     \<lparr>personal_info = example_info, education = [],
      work_experience =
        [example_exp ''Cook'' ''Diner'' [''Knife''], example_exp ''Driver'' ''Cab'' [''Car''],
         example_exp ''Clerk'' ''Shop'' [''Till''], example_exp ''Guard'' ''Bank'' [''Key'']],
      projects = [], skills = [(''Languages'', [])]\<rparr>"

definition ranked_profile :: profile where
  "ranked_profile =
     \<lparr>personal_info = example_info, education = [],
      work_experience =
        [example_exp ''Cook'' ''Diner'' [''Knife''],
         example_exp ''Intern'' ''Data Inc'' [''Python''],
         example_exp ''Python Engineer'' ''Tech Corp'' [''SQL''],
         example_exp ''Analyst'' ''Stats Ltd'' [''Python'']],
      projects = [], skills = []\<rparr>"


text \<open>The same two profiles with one skill that matches no keyword.\<close>

definition four_jobs_cobol_profile :: profile where
  "four_jobs_cobol_profile = four_jobs_profile\<lparr>skills := [(''Languages'', [''Cobol''])]\<rparr>"

definition ranked_cobol_profile :: profile where
  "ranked_cobol_profile = ranked_profile\<lparr>skills := [(''Languages'', [''Cobol''])]\<rparr>"


section \<open>Job records and the job repository (job\_database.py)\<close>

text \<open>
  A job dictionary, as the scraper builds it and \<open>categorize_jobs\<close> extends it. Each
  field is optional: \<open>None\<close> means that the dictionary has no such key (a scraped table
  without that column). Scores are the integer counts that \<open>categorize_jobs\<close> computes;
  the default \<open>-1.0\<close> of \<open>insert_job\<close> is the integer \<open>-1\<close>.
\<close>

record job_data =
  job_company :: "string option"
  job_role :: "string option"
  job_location :: "string option"
  job_link :: "string option"
  job_date_posted :: "string option"
  job_original_category :: "string option"
  job_fit_score :: "int option"
  job_fit_category :: "string option"
  job_status :: "string option"
  job_raw_data :: "string option"

text \<open>A row of the table \<open>jobs\<close>, and the table with its \<open>AUTOINCREMENT\<close> counter.\<close>

record row =
  row_id :: nat
  row_company :: string
  row_role :: string
  row_location :: string
  row_link :: string
  row_date_posted :: string
  row_original_category :: string
  row_fit_score :: int
  row_fit_category :: string
  row_status :: string
  row_raw_data :: string

record db =
  rows :: "row list"
  last_id :: nat

definition empty_db :: db where
  "empty_db = \<lparr>rows = [], last_id = 0\<rparr>"

text \<open>\<open>d.setdefault(key, default)\<close> on an optional field.\<close>

definition setdefault :: "'a option \<Rightarrow> 'a \<Rightarrow> 'a option" where
  "setdefault v dflt = (case v of None \<Rightarrow> Some dflt | Some x \<Rightarrow> Some x)"

text \<open>
  \<open>insert_job\<close> fills the missing keys, the snapshot \<open>raw_data\<close> last (it is
  \<open>json.dumps\<close> of the dictionary with the other defaults already set; \<open>dumps\<close> is a
  parameter), and inserts one row under the next id. It returns \<open>lastrowid\<close>.
\<close>

definition with_defaults :: "(job_data \<Rightarrow> string) \<Rightarrow> job_data \<Rightarrow> job_data" where
  "with_defaults dumps job =
     (let j = job\<lparr>job_company := setdefault (job_company job) ''N/A'',
                    job_role := setdefault (job_role job) ''N/A'',
                    job_location := setdefault (job_location job) ''N/A'',
                    job_link := setdefault (job_link job) ''N/A'',
                    job_date_posted := setdefault (job_date_posted job) ''N/A'',
                    job_original_category := setdefault (job_original_category job) ''N/A'',
                    job_fit_score := setdefault (job_fit_score job) (- 1),
                    job_fit_category := setdefault (job_fit_category job) ''unclassified'',
                    job_status := setdefault (job_status job) ''new''\<rparr>
      in j\<lparr>job_raw_data := setdefault (job_raw_data j) (dumps j)\<rparr>)"

definition insert_job :: "(job_data \<Rightarrow> string) \<Rightarrow> db \<Rightarrow> job_data \<Rightarrow> db \<times> nat" where
  "insert_job dumps d job =
     (let j = with_defaults dumps job;
          new_id = last_id d + 1;
          r = \<lparr>row_id = new_id,
               row_company = the (job_company j),
               row_role = the (job_role j),
               row_location = the (job_location j),
               row_link = the (job_link j),
               row_date_posted = the (job_date_posted j),
               row_original_category = the (job_original_category j),
               row_fit_score = the (job_fit_score j),
               row_fit_category = the (job_fit_category j),
               row_status = the (job_status j),
               row_raw_data = the (job_raw_data j)\<rparr>
      in (\<lparr>rows = rows d @ [r], last_id = new_id\<rparr>, new_id))"

text \<open>
  \<open>SELECT id FROM jobs WHERE link = ? AND role = ?\<close> with the parameters
  \<open>job_data.get('link')\<close> and \<open>job_data.get('role')\<close>, then \<open>fetchone()\<close>. A missing key
  binds SQL \<open>NULL\<close>, and a comparison with \<open>NULL\<close> selects no row.
\<close>

definition select_id_by_link_role :: "db \<Rightarrow> string option \<Rightarrow> string option \<Rightarrow> nat option" where
  "select_id_by_link_role d link_param role_param =
     (case (link_param, role_param) of
        (Some l, Some r) \<Rightarrow>
          (case filter (\<lambda>x. row_link x = l \<and> row_role x = r) (rows d) of
             [] \<Rightarrow> None
           | x # _ \<Rightarrow> Some (row_id x))
      | _ \<Rightarrow> None)"

text \<open>
  \<^verbatim>\<open>
  def insert_jobs(self, jobs_list):
      inserted_count = 0
      for job_data in jobs_list:
          self.cursor.execute('SELECT id FROM jobs WHERE link = ? AND role = ?',
                              (job_data.get('link'), job_data.get('role')))
          existing_job = self.cursor.fetchone()
          if existing_job:
              continue
          self.insert_job(job_data)
          inserted_count += 1
      return inserted_count
  \<close>
  The dictionaries of \<open>jobs_list\<close> are taken to be distinct objects.
\<close>

fun insert_jobs_loop :: "(job_data \<Rightarrow> string) \<Rightarrow> db \<Rightarrow> job_data list \<Rightarrow> int \<Rightarrow> db \<times> int" where
  "insert_jobs_loop dumps d [] inserted_count = (d, inserted_count)"
| "insert_jobs_loop dumps d (job # jobs_list) inserted_count =
     (case select_id_by_link_role d (job_link job) (job_role job) of
        Some existing_job \<Rightarrow> insert_jobs_loop dumps d jobs_list inserted_count
      | None \<Rightarrow>
          insert_jobs_loop dumps (fst (insert_job dumps d job)) jobs_list (inserted_count + 1))"

definition insert_jobs :: "(job_data \<Rightarrow> string) \<Rightarrow> db \<Rightarrow> job_data list \<Rightarrow> db \<times> int" where
  "insert_jobs dumps d jobs_list = insert_jobs_loop dumps d jobs_list 0"

text \<open>A sequence of \<open>insert_jobs\<close> calls, one per list of jobs.\<close>

fun insert_jobs_calls :: "(job_data \<Rightarrow> string) \<Rightarrow> db \<Rightarrow> job_data list list \<Rightarrow> db" where
  "insert_jobs_calls dumps d [] = d"
| "insert_jobs_calls dumps d (jobs_list # calls) =
     insert_jobs_calls dumps (fst (insert_jobs dumps d jobs_list)) calls"

text \<open>The invariant of the spec: no two stored records share (link, role).\<close>

definition link_role_unique :: "db \<Rightarrow> bool" where
  "link_role_unique d = distinct (map (\<lambda>r. (row_link r, row_role r)) (rows d))"

text \<open>\<open>UPDATE jobs SET status = ? WHERE id = ?\<close>\<close>

definition update_job_status :: "db \<Rightarrow> nat \<Rightarrow> string \<Rightarrow> db" where
  "update_job_status d job_id new_status =
     d\<lparr>rows := map (\<lambda>r. if row_id r = job_id then r\<lparr>row_status := new_status\<rparr> else r)
                  (rows d)\<rparr>"

text \<open>
  \<open>categorize_jobs\<close>. Its first step, \<open>ResumeTailor(profile_name)\<close>, either raises
  \<open>ValueError\<close> or yields the loaded profile; the outcome is the argument \<open>tailor\<close>.
  \<open>job.get('role')\<close> is tested for truth: the key is present and its string not empty.
\<close>

definition truthy_field :: "string option \<Rightarrow> string list" where
  "truthy_field v = (case v of None \<Rightarrow> [] | Some x \<Rightarrow> (if x = [] then [] else [x]))"

definition profile_score :: "profile \<Rightarrow> job_data \<Rightarrow> int" where
  "profile_score profile_data job =
     (let job_description_parts = truthy_field (job_role job) @ truthy_field (job_company job);
          job_keywords =
            extract_keywords_from_job_description (join '' '' job_description_parts)
      in sum_list (map (\<lambda>(category, skills_list).
                          calculate_keyword_score skills_list job_keywords)
                     (skills profile_data))
         + sum_list (map (\<lambda>exp. calculate_keyword_score
                                  (get_list (exp_description exp) @ get_list (exp_technologies exp))
                                  job_keywords)
                       (work_experience profile_data))
         + sum_list (map (\<lambda>proj. calculate_keyword_score
                                   (get_list (proj_description proj)
                                      @ get_list (proj_technologies proj))
                                   job_keywords)
                       (projects profile_data)))"

definition fit_category_for :: "int \<Rightarrow> int \<Rightarrow> int \<Rightarrow> string" where
  "fit_category_for score high_threshold medium_threshold =
     (if score \<ge> high_threshold then ''High Fit''
      else if score \<ge> medium_threshold then ''Medium Fit''
      else ''Low Fit'')"

definition categorize_job :: "profile \<Rightarrow> int \<Rightarrow> int \<Rightarrow> job_data \<Rightarrow> job_data" where
  "categorize_job profile_data high_threshold medium_threshold job =
     (let score = profile_score profile_data job
      in job\<lparr>job_fit_score := Some score,
              job_fit_category :=
                Some (fit_category_for score high_threshold medium_threshold)\<rparr>)"

definition categorize_jobs ::
  "py_error + profile \<Rightarrow> job_data list \<Rightarrow> int \<Rightarrow> int \<Rightarrow> job_data list" where
  "categorize_jobs tailor jobs_list high_threshold medium_threshold =
     (case tailor of
        Inl e \<Rightarrow> []
      | Inr profile_data \<Rightarrow>
          map (categorize_job profile_data high_threshold medium_threshold) jobs_list)"

text \<open>The call without thresholds: \<open>high_threshold=5, medium_threshold=2\<close>.\<close>

definition categorize_jobs_default :: "py_error + profile \<Rightarrow> job_data list \<Rightarrow> job_data list" where
  "categorize_jobs_default tailor jobs_list = categorize_jobs tailor jobs_list 5 2"

text \<open>Example data.\<close>

definition example_dumps :: "job_data \<Rightarrow> string" where
  "example_dumps job = ''{}''"

definition scraped_job :: "string \<Rightarrow> string \<Rightarrow> string option \<Rightarrow> job_data" where
  "scraped_job company_name role_name link_field =
     \<lparr>job_company = Some company_name, job_role = Some role_name,
      job_location = Some ''Remote'', job_link = link_field, job_date_posted = Some ''2d'',
      job_original_category = Some ''Software Engineer New Grad'',
      job_fit_score = None, job_fit_category = None, job_status = None,
      job_raw_data = None\<rparr>"

definition two_jobs_db :: db where
  "two_jobs_db =
     fst (insert_jobs example_dumps empty_db
            [scraped_job ''Acme'' ''Engineer'' (Some ''http://a''),
             scraped_job ''Beta'' ''Analyst'' (Some ''http://b'')])"

definition demo_profile :: profile where
  "demo_profile =
     \<lparr>personal_info = example_info, education = [],
      work_experience =
        [example_exp ''Software Engineer'' ''Tech Corp'' [''Python'', ''SQL'']],
      projects = [],
      skills = [(''Programming Languages'', [''Python'', ''Java'', ''JavaScript'']),
                (''Tools'', [''Engineer notebook''])]\<rparr>"


section \<open>The profile store (profile\_manager.py)\<close>

text \<open>
  Profile data is a JSON value; Python's \<open>None\<close> is \<open>JNull\<close>, a dictionary is the list
  of its items in insertion order.
\<close>

datatype json =
  JNull | JBool bool | JNum int | JStr string | JArr "json list" | JObj "(string \<times> json) list"

text \<open>
  The profiles directory maps a path to the content of the file there. The \<open>json\<close>
  library is taken to read back what it wrote: a file written by \<open>json.dump\<close> is
  \<open>Document d\<close> for the value \<open>d\<close> it denotes, and \<open>json.load\<close> of it returns \<open>d\<close>;
  any other file is \<open>Garbage\<close>, on which \<open>json.load\<close> raises \<open>JSONDecodeError\<close>.
\<close>

datatype content = Document json | Garbage string

type_synonym fs = "string \<Rightarrow> content option"

text \<open>
  What the functions take from their surroundings: the profiles directory
  \<open>PROFILE_DIR\<close>; the outcome of \<open>load_schema()\<close> (\<open>None\<close>: the schema is loaded,
  otherwise the exception it raises); the outcome of \<open>jsonschema.validate\<close> of a value
  against the schema; and, per path, the exception text when \<open>open\<close> fails for reading or
  for writing. The schema file itself is not part of the sources, so validation is a
  parameter.
\<close>

datatype validation = Valid | Invalid string | Unexpected string

record env =
  profile_dir :: string
  schema_load :: "py_error option"
  validation :: "json \<Rightarrow> validation"
  read_error :: "string \<Rightarrow> string option"
  write_error :: "string \<Rightarrow> string option"

text \<open>The five answers typed at the prompts of \<open>create_new_profile\<close>.\<close>

record answers =
  typed_name :: string
  typed_email :: string
  typed_phone :: string
  typed_linkedin :: string
  typed_github :: string

definition error_text :: "py_error \<Rightarrow> string" where
  "error_text e =
     (case e of AttributeError m \<Rightarrow> m | ValueError m \<Rightarrow> m | JSONDecodeError m \<Rightarrow> m
      | OSError m \<Rightarrow> m)"

definition quoted :: "string \<Rightarrow> string" where
  "quoted s = [CHR 0x27] @ s @ [CHR 0x27]"

text \<open>\<open>os.path.join(a, b)\<close> on POSIX: an absolute \<open>b\<close> replaces \<open>a\<close>.\<close>

definition os_path_join :: "string \<Rightarrow> string \<Rightarrow> string" where
  "os_path_join a b =
     (case b of
        c # cs \<Rightarrow>
          (if c = CHR ''/'' then b
           else if a = [] \<or> last a = CHR ''/'' then a @ b
           else a @ ''/'' @ b)
      | [] \<Rightarrow> (if a = [] \<or> last a = CHR ''/'' then a else a @ ''/''))"

definition get_profile_path :: "env \<Rightarrow> string \<Rightarrow> string" where
  "get_profile_path e profile_name = os_path_join (profile_dir e) (profile_name @ ''.json'')"

definition validate_profile :: "env \<Rightarrow> json \<Rightarrow> bool \<times> string" where
  "validate_profile e profile_data =
     (case validation e profile_data of
        Valid \<Rightarrow> (True, ''Profile is valid.'')
      | Invalid m \<Rightarrow> (False, ''Profile validation error: '' @ m)
      | Unexpected m \<Rightarrow> (False, ''An unexpected error occurred during validation: '' @ m))"

text \<open>
  \<^verbatim>\<open>
  def load_profile(profile_name):
      profile_path = get_profile_path(profile_name)
      if not os.path.exists(profile_path):
          return None, "Profile not found."
      try:
          with open(profile_path, 'r') as f:
              profile_data = json.load(f)
          schema = load_schema()
          is_valid, message = validate_profile(profile_data, schema)
          if not is_valid:
              print(...)
          return profile_data, None
      except json.JSONDecodeError:
          return None, "Error: Invalid JSON in profile file."
      except Exception as e:
          return None, f"Error loading profile: {e}"
  \<close>
  The result is the pair (data, error). The warning that is printed for invalid data does
  not change the result.
\<close>

definition load_profile :: "env \<Rightarrow> fs \<Rightarrow> string \<Rightarrow> json \<times> string option" where
  "load_profile e files profile_name =
     (let profile_path = get_profile_path e profile_name
      in case files profile_path of
           None \<Rightarrow> (JNull, Some ''Profile not found.'')
         | Some c \<Rightarrow>
             (case read_error e profile_path of
                Some m \<Rightarrow> (JNull, Some (''Error loading profile: '' @ m))
              | None \<Rightarrow>
                  (case c of
                     Garbage g \<Rightarrow> (JNull, Some ''Error: Invalid JSON in profile file.'')
                   | Document profile_data \<Rightarrow>
                       (case schema_load e of
                          Some (JSONDecodeError m) \<Rightarrow>
                            (JNull, Some ''Error: Invalid JSON in profile file.'')
                        | Some x \<Rightarrow> (JNull, Some (''Error loading profile: '' @ error_text x))
                        | None \<Rightarrow> (profile_data, None)))))"

text \<open>
  \<^verbatim>\<open>
  def save_profile(profile_name, profile_data):
      create_profile_dir()
      profile_path = get_profile_path(profile_name)
      schema = load_schema()
      is_valid, message = validate_profile(profile_data, schema)
      if not is_valid:
          return False, f"Cannot save invalid profile: {message}"
      try:
          with open(profile_path, 'w') as f:
              json.dump(profile_data, f, indent=2)
          return True, f"Profile '{profile_name}' saved successfully."
      except Exception as e:
          return False, f"Error saving profile: {e}"
  \<close>
  The result is the new directory content with the pair (success, message); an exception
  of \<open>load_schema()\<close> is not caught and leaves the function (\<open>Inl\<close>).
\<close>

definition save_profile ::
  "env \<Rightarrow> fs \<Rightarrow> string \<Rightarrow> json \<Rightarrow> py_error + (fs \<times> bool \<times> string)" where
  "save_profile e files profile_name profile_data =
     (let profile_path = get_profile_path e profile_name
      in case schema_load e of
           Some x \<Rightarrow> Inl x
         | None \<Rightarrow>
             (let (is_valid, message) = validate_profile e profile_data
              in if \<not> is_valid then
                   Inr (files, False, ''Cannot save invalid profile: '' @ message)
                 else
                   (case write_error e profile_path of
                      Some m \<Rightarrow> Inr (files, False, ''Error saving profile: '' @ m)
                    | None \<Rightarrow>
                        Inr (files(profile_path \<mapsto> Document profile_data), True,
                             ''Profile '' @ quoted profile_name @ '' saved successfully.''))))"

text \<open>Truth value of a JSON value, and the dictionary operations used.\<close>

fun truthy :: "json \<Rightarrow> bool" where
  "truthy JNull = False"
| "truthy (JBool b) = b"
| "truthy (JNum n) = (n \<noteq> 0)"
| "truthy (JStr s) = (s \<noteq> [])"
| "truthy (JArr xs) = (xs \<noteq> [])"
| "truthy (JObj kvs) = (kvs \<noteq> [])"

definition dict_get :: "(string \<times> json) list \<Rightarrow> string \<Rightarrow> json" where
  "dict_get kvs k = (case map_of kvs k of None \<Rightarrow> JNull | Some v \<Rightarrow> v)"

definition dict_setitem :: "(string \<times> json) list \<Rightarrow> string \<Rightarrow> json \<Rightarrow> (string \<times> json) list" where
  "dict_setitem kvs k v =
     (if k \<in> set (map fst kvs) then map (\<lambda>(k', v'). if k' = k then (k', v) else (k', v')) kvs
      else kvs @ [(k, v)])"

definition dict_setdefault :: "(string \<times> json) list \<Rightarrow> string \<Rightarrow> json \<Rightarrow> (string \<times> json) list" where
  "dict_setdefault kvs k v = (if k \<in> set (map fst kvs) then kvs else kvs @ [(k, v)])"

text \<open>
  \<^verbatim>\<open>
  def create_new_profile(profile_name, initial_data=None):
      if load_profile(profile_name)[0] is not None:
          return False, f"Profile '{profile_name}' already exists."
      schema = load_schema()
      new_profile = initial_data if initial_data else {}
      if not new_profile.get("personal_info"):
          new_profile["personal_info"] = {"name": input("Name: "), ...}
      new_profile.setdefault("education", [])
      new_profile.setdefault("work_experience", [])
      new_profile.setdefault("projects", [])
      new_profile.setdefault("skills", {})
      return save_profile(profile_name, new_profile)
  \<close>
  \<open>initial_data\<close> is \<open>JNull\<close> when the argument is omitted. A truthy \<open>initial_data\<close>
  that is not a dictionary has no method \<open>get\<close>.
\<close>

definition create_new_profile ::
  "env \<Rightarrow> fs \<Rightarrow> answers \<Rightarrow> string \<Rightarrow> json \<Rightarrow> py_error + (fs \<times> bool \<times> string)" where
  "create_new_profile e files typed profile_name initial_data =
     (if fst (load_profile e files profile_name) \<noteq> JNull then
        Inr (files, False, ''Profile '' @ quoted profile_name @ '' already exists.'')
      else
        (case schema_load e of
           Some x \<Rightarrow> Inl x
         | None \<Rightarrow>
             (case (if truthy initial_data then initial_data else JObj []) of
                JObj kvs \<Rightarrow>
                  (let kvs1 =
                         (if \<not> truthy (dict_get kvs ''personal_info'') then
                            dict_setitem kvs ''personal_info''
                              (JObj [(''name'', JStr (typed_name typed)),
                                     (''email'', JStr (typed_email typed)),
                                     (''phone'', JStr (typed_phone typed)),
                                     (''linkedin'', JStr (typed_linkedin typed)),
                                     (''github'', JStr (typed_github typed))])
                          else kvs);
                       kvs2 = dict_setdefault kvs1 ''education'' (JArr []);
                       kvs3 = dict_setdefault kvs2 ''work_experience'' (JArr []);
                       kvs4 = dict_setdefault kvs3 ''projects'' (JArr []);
                       kvs5 = dict_setdefault kvs4 ''skills'' (JObj [])
                   in save_profile e files profile_name (JObj kvs5))
              | _ \<Rightarrow> Inl (AttributeError ''get''))))"

text \<open>
  Modelled from the spec: the schema file \<open>schemas/profile_schema.json\<close> is not part of
  the sources. The spec names its required top-level fields (personal\_info, education,
  work\_experience, projects, skills); this validator, used in the example environment
  only, accepts the dictionaries that have all five.
\<close>

definition required_fields_validation :: "json \<Rightarrow> validation" where
  "required_fields_validation d =
     (case d of
        JObj kvs \<Rightarrow>
          (case filter (\<lambda>k. k \<notin> set (map fst kvs))
                  [''personal_info'', ''education'', ''work_experience'', ''projects'',
                   ''skills''] of
             [] \<Rightarrow> Valid
           | k # ks \<Rightarrow> Invalid (quoted k @ '' is a required property''))
      | _ \<Rightarrow> Invalid ''not of type object'')"

definition example_env :: env where
  "example_env =
     \<lparr>profile_dir = ''profiles'', schema_load = None,
      validation = required_fields_validation,
      read_error = (\<lambda>path. None), write_error = (\<lambda>path. None)\<rparr>"

definition example_answers :: answers where
  "example_answers =
     \<lparr>typed_name = ''Alice'', typed_email = ''alice@example.com'', typed_phone = ''123'',
      typed_linkedin = ''http://linkedin.com/in/alice'',
      typed_github = ''http://github.com/alice''\<rparr>"

definition alice_profile :: json where
  "alice_profile =
     JObj [(''personal_info'',
            JObj [(''name'', JStr ''Alice''), (''email'', JStr ''alice@example.com''),
                  (''phone'', JStr ''123''),
                  (''linkedin'', JStr ''http://linkedin.com/in/alice''),
                  (''github'', JStr ''http://github.com/alice'')]),
           (''education'', JArr []), (''work_experience'', JArr []),
           (''projects'', JArr []), (''skills'', JObj [])]"

definition no_files :: fs where
  "no_files = (\<lambda>path. None)"

definition broken_files :: fs where
  "broken_files = no_files(''profiles/alice.json'' \<mapsto> Garbage ''{ personal_info: '')"


section \<open>Properties of the string operations\<close>

lemma starts_with_prefix: "starts_with b a = prefix a b"
  by (induction b a rule: starts_with.induct) simp_all

lemma py_in_sublist: "py_in a b = sublist a b"
proof (induction b)
  case Nil
  show ?case by simp
next
  case (Cons y ys)
  show ?case
  proof (cases a)
    case Nil
    then show ?thesis by simp
  next
    case (Cons x xs)
    with Cons.IH show ?thesis
      by (simp add: starts_with_prefix sublist_Cons_right)
  qed
qed

lemma py_in_substring: "py_in a b = (\<exists>ps ss. b = ps @ a @ ss)"
  by (simp add: py_in_sublist sublist_def)

lemma score_loop_count:
  "score_loop tc K s = s + int (length (filter (matches tc) K))"
  by (induction K arbitrary: s) (simp_all add: matches_def)

lemma calculate_keyword_score_count:
  "calculate_keyword_score T K = int (length (filter (matches (lower (join '' '' T))) K))"
  by (simp add: calculate_keyword_score_def score_loop_count)

section \<open>Keyword score: what it counts\<close>

lemma matches_substring:
  "matches tc k = (\<exists>ps ss. tc = ps @ lower k @ ss)"
  by (simp add: matches_def py_in_substring)

lemma score_mset_cong:
  assumes "mset K' = mset K"
  shows "calculate_keyword_score T K' = calculate_keyword_score T K"
proof -
  have "mset (filter (matches (lower (join '' '' T))) K') =
        mset (filter (matches (lower (join '' '' T))) K)"
    using assms by simp
  then have "length (filter (matches (lower (join '' '' T))) K') =
             length (filter (matches (lower (join '' '' T))) K)"
    by (rule mset_eq_length)
  then show ?thesis
    by (simp add: calculate_keyword_score_count)
qed

text \<open>
  C3 (amended). For every keyword list \<open>K\<close> and fragment list \<open>T\<close>, the keyword score is
  the number of elements \<open>k\<close> of \<open>K\<close> whose lowercasing is a substring of the lowercased
  text obtained by joining the fragments of \<open>T\<close> with single spaces; it is the same for
  every reordering \<open>K'\<close> of \<open>K\<close>, and it is never negative.
\<close>

theorem keyword_score_counts_joined_matches:
  "calculate_keyword_score T K =
     int (length (filter (\<lambda>k. \<exists>ps ss. lower (join '' '' T) = ps @ lower k @ ss) K))
   \<and> (mset K' = mset K \<longrightarrow> calculate_keyword_score T K' = calculate_keyword_score T K)
   \<and> 0 \<le> calculate_keyword_score T K"
proof -
  have "filter (matches (lower (join '' '' T))) K =
        filter (\<lambda>k. \<exists>ps ss. lower (join '' '' T) = ps @ lower k @ ss) K"
    by (rule filter_cong) (simp_all add: matches_substring)
  then have "calculate_keyword_score T K =
     int (length (filter (\<lambda>k. \<exists>ps ss. lower (join '' '' T) = ps @ lower k @ ss) K))"
    by (simp add: calculate_keyword_score_count)
  moreover have "mset K' = mset K \<longrightarrow>
      calculate_keyword_score T K' = calculate_keyword_score T K"
    using score_mset_cong by blast
  moreover have "0 \<le> calculate_keyword_score T K"
    by (simp add: calculate_keyword_score_count)
  ultimately show ?thesis by blast
qed

theorem keyword_score_counts_joined_matches_witness:
  "mset [''java'', ''py'', ''thon''] = mset [''py'', ''thon'', ''java'']
   \<and> calculate_keyword_score [''Python'', ''SQL''] [''java'', ''py'', ''thon''] = 2
   \<and> calculate_keyword_score [''Python'', ''SQL''] [''py'', ''thon'', ''java''] = 2"
proof -
  have perm: "mset [''java'', ''py'', ''thon''] = mset [''py'', ''thon'', ''java'']"
    by simp
  have val: "calculate_keyword_score [''Python'', ''SQL''] [''py'', ''thon'', ''java''] = 2"
    by code_simp
  from keyword_score_counts_joined_matches
    [of "[''Python'', ''SQL'']" "[''py'', ''thon'', ''java'']" "[''java'', ''py'', ''thon'']"]
    perm val
  show ?thesis by simp
qed

text \<open>
  C3 as stated reads the text as the plain concatenation of the fragments. The code joins
  them with a space, so a keyword that straddles two fragments is not counted: the
  fragments \<open>ab\<close>, \<open>cd\<close> and the keyword \<open>bc\<close> score 0, while \<open>bc\<close> is a substring
  of \<open>abcd\<close>.
\<close>

theorem keyword_score_concat_counterexample:
  "calculate_keyword_score [''ab'', ''cd''] [''bc''] = 0
   \<and> spec_score_concat [''ab'', ''cd''] [''bc''] = 1"
  by code_simp

text \<open>
  C4 (amended). Duplicates in the keyword list are counted: for every duplicate-free list
  \<open>K'\<close> with the same elements as \<open>K\<close> (a deduplication of \<open>K\<close>), the score against
  \<open>K'\<close> is at most the score against \<open>K\<close>, and the two are equal exactly when no keyword
  that matches the text occurs twice in \<open>K\<close>.
\<close>

theorem keyword_score_deduplication:
  assumes "distinct K'" and "set K' = set K"
  shows "calculate_keyword_score T K' \<le> calculate_keyword_score T K
   \<and> ((calculate_keyword_score T K' = calculate_keyword_score T K) =
        distinct (filter (matches (lower (join '' '' T))) K))"
proof -
  let ?m = "matches (lower (join '' '' T))"
  have d: "distinct (filter ?m K')"
    using assms(1) by simp
  have s: "set (filter ?m K') = set (filter ?m K)"
    using assms(2) by simp
  have len': "length (filter ?m K') = card (set (filter ?m K))"
    using d s distinct_card by metis
  have le: "card (set (filter ?m K)) \<le> length (filter ?m K)"
    by (rule card_length)
  have eq: "(card (set (filter ?m K)) = length (filter ?m K)) = distinct (filter ?m K)"
    using card_distinct distinct_card by blast
  show ?thesis
    using len' le eq by (simp add: calculate_keyword_score_count)
qed

theorem keyword_score_deduplication_witness:
  "distinct [''py'', ''java''] \<and> set [''py'', ''java''] = set [''py'', ''java'', ''py'']
   \<and> calculate_keyword_score [''Python''] [''py'', ''java''] = 1
   \<and> calculate_keyword_score [''Python''] [''py'', ''java'', ''py''] = 2
   \<and> \<not> distinct (filter (matches (lower (join '' '' [''Python'']))) [''py'', ''java'', ''py''])"
proof -
  have d: "distinct [''py'', ''java'']" by simp
  have s: "set [''py'', ''java''] = set [''py'', ''java'', ''py'']" by auto
  have v1: "calculate_keyword_score [''Python''] [''py'', ''java''] = 1" by code_simp
  have v2: "calculate_keyword_score [''Python''] [''py'', ''java'', ''py''] = 2" by code_simp
  from keyword_score_deduplication [OF d s, of "[''Python'']"] d s v1 v2
  show ?thesis by simp
qed

text \<open>
  C4 as stated fails: the keyword \<open>py\<close> listed twice scores 2 against \<open>python\<close>, the
  deduplicated list scores 1.
\<close>

theorem keyword_score_duplicates_counterexample:
  "calculate_keyword_score [''python''] [''py'', ''py''] = 2
   \<and> calculate_keyword_score [''python''] (remdups [''py'', ''py'']) = 1"
  by code_simp

section \<open>Tailoring: skills and work experience\<close>

lemma tailor_skills_list_result:
  "tailor_skills_list kws l d =
     (case l of [] \<Rightarrow> Inr d
      | skill # rest \<Rightarrow>
          Inl (AttributeError (if skill_matches kws skill then ''insert'' else ''append'')))"
  by (cases l) (simp_all add: defaultdict_insert_def defaultdict_append_def)

lemma tailor_skills_Inr:
  "(tailor_skills kws items d = Inr d') = ((\<forall>(c, l) \<in> set items. l = []) \<and> d' = d)"
proof (induction items)
  case Nil
  show ?case by auto
next
  case (Cons item items)
  obtain c l where item: "item = (c, l)" by (cases item)
  show ?case
  proof (cases l)
    case Nil
    with item Cons.IH show ?thesis by (simp add: tailor_skills_list_result)
  next
    case (Cons skill rest)
    with item show ?thesis by (simp add: tailor_skills_list_result)
  qed
qed

lemma tailor_skills_Inl:
  "tailor_skills kws items d = Inl e \<Longrightarrow> \<exists>a. e = AttributeError a"
proof (induction items)
  case Nil
  then show ?case by simp
next
  case (Cons item items)
  obtain c l where item: "item = (c, l)" by (cases item)
  show ?case
  proof (cases l)
    case Nil
    with item Cons show ?thesis by (simp add: tailor_skills_list_result)
  next
    case (Cons skill rest)
    with item Cons.prems show ?thesis by (auto simp add: tailor_skills_list_result)
  qed
qed

lemma tailor_resume_Inr:
  "(\<exists>r. tailor_resume p jd = Inr r) = (\<forall>(c, l) \<in> set (skills p). l = [])"
proof -
  let ?k = "extract_keywords_from_job_description jd"
  show ?thesis
  proof (cases "tailor_skills ?k (skills p) []")
    case (Inl e)
    then have "\<not> (\<forall>(c, l) \<in> set (skills p). l = [])"
      using tailor_skills_Inr [of ?k "skills p" "[]" "[]"]
      by (metis Inl_Inr_False tailor_skills_Inr)
    with Inl show ?thesis by (simp add: tailor_resume_def Let_def)
  next
    case (Inr d)
    then have "\<forall>(c, l) \<in> set (skills p). l = []"
      using tailor_skills_Inr [of ?k "skills p" "[]" d] by simp
    with Inr show ?thesis by (simp add: tailor_resume_def Let_def)
  qed
qed

lemma tailor_resume_Inl:
  "tailor_resume p jd = Inl e \<Longrightarrow> \<exists>a. e = AttributeError a"
  by (auto simp add: tailor_resume_def Let_def split: sum.splits dest: tailor_skills_Inl)

lemma insort_key_map:
  "insort_key f (g x) (map g xs) = map g (insort_key (\<lambda>y. f (g y)) x xs)"
  by (induction xs) simp_all

lemma sort_key_map:
  "sort_key f (map g xs) = map g (sort_key (\<lambda>y. f (g y)) xs)"
  by (induction xs) (simp_all add: insort_key_map)

lemma tailor_work_experience_sort:
  "tailor_work_experience kws exps =
     sort_key (\<lambda>e. - calculate_keyword_score (exp_text e) kws)
       (filter (\<lambda>e. 0 < calculate_keyword_score (exp_text e) kws \<or> length exps \<le> 3) exps)"
  by (simp add: tailor_work_experience_def sort_by_score_reverse_def Let_def sort_key_map
      filter_map comp_def filter_sort)


lemma work_score_sort:
  "tailored_work_experience p jd =
     sort_key (\<lambda>e. - work_score jd e)
       (filter (\<lambda>e. 0 < work_score jd e \<or> length (work_experience p) \<le> 3)
          (work_experience p))"
  by (simp add: tailored_work_experience_def work_score_def tailor_work_experience_sort)

lemma tailor_resume_work_experience:
  "tailor_resume p jd = Inr r \<Longrightarrow> work_experience r = tailored_work_experience p jd"
  by (auto simp add: tailor_resume_def tailored_work_experience_def Let_def split: sum.splits)

text \<open>
  The work-experience step taken alone (the value assigned on line 55, before the skills
  step runs): the list is ordered by per-entry keyword score, highest first; it holds
  exactly the entries of the profile whose score is positive or, when the profile has 3 or
  fewer entries, all of them; entries of equal score keep their original relative order;
  4 or more entries none of which matches a keyword give the empty list. A resume that
  \<open>tailor_resume\<close> returns carries this list, but it returns one only for a profile
  without any skill.
\<close>

lemma tailored_work_experience_stable_sorted_kept:
  "sorted_wrt (\<lambda>a b. work_score jd b \<le> work_score jd a) (tailored_work_experience p jd)
   \<and> mset (tailored_work_experience p jd) =
       mset (filter (\<lambda>e. 0 < work_score jd e \<or> length (work_experience p) \<le> 3)
               (work_experience p))
   \<and> (\<forall>k. filter (\<lambda>e. work_score jd e = k) (tailored_work_experience p jd) =
            filter (\<lambda>e. work_score jd e = k)
              (filter (\<lambda>e. 0 < work_score jd e \<or> length (work_experience p) \<le> 3)
                 (work_experience p)))
   \<and> (4 \<le> length (work_experience p) \<and> (\<forall>e \<in> set (work_experience p). work_score jd e = 0)
        \<longrightarrow> tailored_work_experience p jd = [])
   \<and> (\<forall>r. tailor_resume p jd = Inr r \<longrightarrow>
            work_experience r = tailored_work_experience p jd)"
proof -
  let ?W = "work_experience p"
  let ?keep = "\<lambda>e. 0 < work_score jd e \<or> length ?W \<le> 3"
  let ?R = "tailored_work_experience p jd"
  have R: "?R = sort_key (\<lambda>e. - work_score jd e) (filter ?keep ?W)"
    by (rule work_score_sort)
  have "sorted (map (\<lambda>e. - work_score jd e) ?R)"
    unfolding R by (rule sorted_sort_key)
  then have "sorted_wrt (\<lambda>a b. - work_score jd a \<le> - work_score jd b) ?R"
    by (simp add: sorted_map)
  then have ordered: "sorted_wrt (\<lambda>a b. work_score jd b \<le> work_score jd a) ?R"
    by simp
  have perm: "mset ?R = mset (filter ?keep ?W)"
    unfolding R by simp
  have stable: "\<forall>k. filter (\<lambda>e. work_score jd e = k) ?R =
      filter (\<lambda>e. work_score jd e = k) (filter ?keep ?W)"
  proof
    fix k
    have "filter (\<lambda>e. - work_score jd e = - k) ?R =
          filter (\<lambda>e. - work_score jd e = - k) (filter ?keep ?W)"
      unfolding R by (rule sort_key_stable)
    then show "filter (\<lambda>e. work_score jd e = k) ?R =
      filter (\<lambda>e. work_score jd e = k) (filter ?keep ?W)"
      by simp
  qed
  have none: "4 \<le> length ?W \<and> (\<forall>e \<in> set ?W. work_score jd e = 0) \<longrightarrow> ?R = []"
  proof
    assume a: "4 \<le> length ?W \<and> (\<forall>e \<in> set ?W. work_score jd e = 0)"
    then have "filter ?keep ?W = []"
      by (auto simp add: filter_empty_conv)
    then show "?R = []"
      unfolding R by simp
  qed
  have ret: "\<forall>r. tailor_resume p jd = Inr r \<longrightarrow> work_experience r = ?R"
    using tailor_resume_work_experience by blast
  from ordered perm stable none ret show ?thesis
    by blast
qed

lemma tailored_work_experience_no_skill_example:
  "length (work_experience four_jobs_profile) = 4
   \<and> map (work_score ''Seeking Python engineer'') (work_experience four_jobs_profile)
       = [0, 0, 0, 0]
   \<and> tailored_work_experience four_jobs_profile ''Seeking Python engineer'' = []
   \<and> tailor_resume four_jobs_profile ''Seeking Python engineer''
       = Inr (four_jobs_profile\<lparr>work_experience := [], skills := []\<rparr>)
   \<and> work_experience (four_jobs_profile\<lparr>work_experience := [], skills := []\<rparr>) = []"
proof -
  let ?jd = "''Seeking Python engineer''"
  have len: "length (work_experience four_jobs_profile) = 4"
    by (simp add: four_jobs_profile_def)
  have scores: "map (work_score ?jd) (work_experience four_jobs_profile) = [0, 0, 0, 0]"
    by code_simp
  have "\<forall>s \<in> set (map (work_score ?jd) (work_experience four_jobs_profile)). s = 0"
    unfolding scores by simp
  then have zero: "\<forall>e \<in> set (work_experience four_jobs_profile). work_score ?jd e = 0"
    by simp
  have ret: "tailor_resume four_jobs_profile ?jd
      = Inr (four_jobs_profile\<lparr>work_experience := [], skills := []\<rparr>)"
    by code_simp
  from tailored_work_experience_stable_sorted_kept [of ?jd four_jobs_profile] len zero
  have "tailored_work_experience four_jobs_profile ?jd = []"
    by simp
  with len scores ret show ?thesis
    by simp
qed

text \<open>
  C2. For every profile with at least one skill in some category and every job
  description, \<open>tailor_resume\<close> returns no resume: the skills step calls \<open>insert\<close> or
  \<open>append\<close> on the skills dictionary itself and raises \<open>AttributeError\<close>.
  \<open>tailor_resume\<close> returns a resume exactly when every category's list is empty.
\<close>

theorem tailor_resume_raises_on_any_skill:
  "((\<exists>c l. (c, l) \<in> set (skills p) \<and> l \<noteq> []) \<longrightarrow>
      (\<exists>a. tailor_resume p jd = Inl (AttributeError a)))
   \<and> ((\<exists>r. tailor_resume p jd = Inr r) = (\<forall>(c, l) \<in> set (skills p). l = []))"
proof -
  have ret: "(\<exists>r. tailor_resume p jd = Inr r) = (\<forall>(c, l) \<in> set (skills p). l = [])"
    by (rule tailor_resume_Inr)
  have "(\<exists>c l. (c, l) \<in> set (skills p) \<and> l \<noteq> []) \<longrightarrow>
      (\<exists>a. tailor_resume p jd = Inl (AttributeError a))"
  proof
    assume "\<exists>c l. (c, l) \<in> set (skills p) \<and> l \<noteq> []"
    then have "\<not> (\<forall>(c, l) \<in> set (skills p). l = [])"
      by auto
    with ret have "\<not> (\<exists>r. tailor_resume p jd = Inr r)"
      by simp
    then obtain e where e: "tailor_resume p jd = Inl e"
      by (cases "tailor_resume p jd") auto
    with tailor_resume_Inl obtain a where "e = AttributeError a"
      by blast
    with e show "\<exists>a. tailor_resume p jd = Inl (AttributeError a)"
      by simp
  qed
  with ret show ?thesis by blast
qed

theorem tailor_resume_raises_witness:
  "(''Languages'', [''Python'']) \<in> set (skills python_profile)
   \<and> tailor_resume python_profile ''Seeking Python engineer'' \<noteq>
       Inr (python_profile\<lparr>skills := []\<rparr>)
   \<and> skills four_jobs_profile = [(''Languages'', [])]
   \<and> tailor_resume four_jobs_profile ''Seeking Python engineer''
       = Inr (four_jobs_profile\<lparr>work_experience := [], skills := []\<rparr>)"
proof -
  let ?jd = "''Seeking Python engineer''"
  have mem: "(''Languages'', [''Python'']) \<in> set (skills python_profile)"
    by (simp add: python_profile_def)
  then have "\<exists>c l. (c, l) \<in> set (skills python_profile) \<and> l \<noteq> []"
    by blast
  with tailor_resume_raises_on_any_skill [of python_profile ?jd]
  obtain a where "tailor_resume python_profile ?jd = Inl (AttributeError a)"
    by blast
  then have fails: "tailor_resume python_profile ?jd \<noteq> Inr (python_profile\<lparr>skills := []\<rparr>)"
    by simp
  have sk: "skills four_jobs_profile = [(''Languages'', [])]"
    by (simp add: four_jobs_profile_def)
  then have "\<forall>(c, l) \<in> set (skills four_jobs_profile). l = []"
    by simp
  with tailor_resume_raises_on_any_skill [of four_jobs_profile ?jd]
  obtain r where r: "tailor_resume four_jobs_profile ?jd = Inr r"
    by blast
  have "tailor_resume four_jobs_profile ?jd
      = Inr (four_jobs_profile\<lparr>work_experience := [], skills := []\<rparr>)"
    by code_simp
  with mem fails sk show ?thesis
    by simp
qed

text \<open>
  C1. The claim promises a tailored skills list with the matching skills first. On the
  spec's own scenario (one skill \<open>Python\<close> in category \<open>Languages\<close>, job description
  \<open>Seeking Python engineer\<close>) the keyword \<open>python\<close> is extracted and the skill matches
  it, but \<open>tailor_resume\<close> raises \<open>AttributeError\<close> instead of returning a resume.
\<close>

theorem tailor_resume_python_skill_raises:
  "extract_keywords_from_job_description ''Seeking Python engineer''
     = [''seeking'', ''python'', ''engineer'']
   \<and> skill_matches [''seeking'', ''python'', ''engineer''] ''Python''
   \<and> skills python_profile = [(''Languages'', [''Python''])]
   \<and> tailor_resume python_profile ''Seeking Python engineer''
       = Inl (AttributeError ''insert'')"
  by code_simp

text \<open>
  C5. The claim promises, for every profile, a tailored work-experience list: the entries
  stable-sorted by score descending, kept when the score is positive or the list has 3 or
  fewer entries. The work-experience step computes that list, but the skills step that
  follows raises \<open>AttributeError\<close> for every profile with a skill, so \<open>tailor_resume\<close>
  returns no resume and the list is lost. With four entries that match no keyword and the
  skill \<open>Cobol\<close>, the step computes the empty list the claim expects and
  \<open>tailor_resume\<close> raises; with four entries of scores 0, 1, 2, 1 and the same skill, the
  step computes the ranking \<open>Python Engineer\<close>, \<open>Intern\<close>, \<open>Analyst\<close> and
  \<open>tailor_resume\<close> raises as well.
\<close>

theorem tailor_resume_with_skill_loses_work_experience:
  "length (work_experience four_jobs_cobol_profile) = 4
   \<and> map (work_score ''Seeking Python engineer'') (work_experience four_jobs_cobol_profile)
       = [0, 0, 0, 0]
   \<and> tailored_work_experience four_jobs_cobol_profile ''Seeking Python engineer'' = []
   \<and> tailor_resume four_jobs_cobol_profile ''Seeking Python engineer''
       = Inl (AttributeError ''append'')
   \<and> map (work_score ''Seeking Python engineer'') (work_experience ranked_cobol_profile)
       = [0, 1, 2, 1]
   \<and> map exp_title (tailored_work_experience ranked_cobol_profile ''Seeking Python engineer'')
       = [''Python Engineer'', ''Intern'', ''Analyst'']
   \<and> tailor_resume ranked_cobol_profile ''Seeking Python engineer''
       = Inl (AttributeError ''append'')"
  by code_simp

section \<open>Job repository: de-duplication, status update, fit category\<close>

lemma select_id_None:
  "(select_id_by_link_role d (Some l) (Some r) = None) =
     ((l, r) \<notin> set (map (\<lambda>x. (row_link x, row_role x)) (rows d)))"
proof -
  have "(filter (\<lambda>x. row_link x = l \<and> row_role x = r) (rows d) = []) =
        ((l, r) \<notin> set (map (\<lambda>x. (row_link x, row_role x)) (rows d)))"
    by (auto simp add: filter_empty_conv)
  then show ?thesis
    by (cases "filter (\<lambda>x. row_link x = l \<and> row_role x = r) (rows d)")
      (simp_all add: select_id_by_link_role_def)
qed

lemma select_id_missing_key:
  "select_id_by_link_role d None role_param = None"
  "select_id_by_link_role d link_param None = None"
  by (simp_all add: select_id_by_link_role_def split: option.splits)

lemma length_insert_job:
  "length (rows (fst (insert_job dumps d job))) = Suc (length (rows d))"
  by (simp add: insert_job_def Let_def)

lemma keys_insert_job:
  "map (\<lambda>x. (row_link x, row_role x)) (rows (fst (insert_job dumps d job))) =
     map (\<lambda>x. (row_link x, row_role x)) (rows d)
       @ [(case job_link job of None \<Rightarrow> ''N/A'' | Some l \<Rightarrow> l,
           case job_role job of None \<Rightarrow> ''N/A'' | Some r \<Rightarrow> r)]"
  by (simp add: insert_job_def with_defaults_def setdefault_def Let_def split: option.splits)

lemma insert_jobs_loop_count:
  "length (rows d) \<le> length (rows (fst (insert_jobs_loop dumps d jobs_list c)))
   \<and> snd (insert_jobs_loop dumps d jobs_list c) =
       c + int (length (rows (fst (insert_jobs_loop dumps d jobs_list c))) - length (rows d))"
proof (induction jobs_list arbitrary: d c)
  case Nil
  show ?case by simp
next
  case (Cons job jobs_list)
  show ?case
  proof (cases "select_id_by_link_role d (job_link job) (job_role job)")
    case (Some existing)
    with Cons.IH [of d c] show ?thesis by simp
  next
    case None
    let ?d1 = "fst (insert_job dumps d job)"
    have len: "length (rows ?d1) = Suc (length (rows d))"
      by (rule length_insert_job)
    from Cons.IH [of ?d1 "c + 1"] len None show ?thesis
      by (auto simp add: Suc_diff_le)
  qed
qed

lemma insert_jobs_loop_unique:
  assumes "\<forall>job \<in> set jobs_list. job_link job \<noteq> None \<and> job_role job \<noteq> None"
    and "link_role_unique d"
  shows "link_role_unique (fst (insert_jobs_loop dumps d jobs_list c))"
  using assms
proof (induction jobs_list arbitrary: d c)
  case Nil
  then show ?case by simp
next
  case (Cons job jobs_list)
  from Cons.prems(1) obtain l r where lr: "job_link job = Some l" "job_role job = Some r"
    by auto
  from Cons.prems(1) have rest: "\<forall>job \<in> set jobs_list. job_link job \<noteq> None \<and> job_role job \<noteq> None"
    by simp
  show ?case
  proof (cases "select_id_by_link_role d (Some l) (Some r)")
    case (Some existing)
    with lr Cons.IH [OF rest Cons.prems(2), of c] show ?thesis by simp
  next
    case None
    let ?d1 = "fst (insert_job dumps d job)"
    from None have new: "(l, r) \<notin> set (map (\<lambda>x. (row_link x, row_role x)) (rows d))"
      by (simp add: select_id_None)
    have "map (\<lambda>x. (row_link x, row_role x)) (rows ?d1) =
          map (\<lambda>x. (row_link x, row_role x)) (rows d) @ [(l, r)]"
      using lr by (simp add: keys_insert_job)
    with new Cons.prems(2) have "link_role_unique ?d1"
      by (simp add: link_role_unique_def)
    from Cons.IH [OF rest this, of "c + 1"] None lr show ?thesis by simp
  qed
qed

lemma insert_jobs_unique_when_keys_present:
  assumes "\<forall>job \<in> set jobs_list. job_link job \<noteq> None \<and> job_role job \<noteq> None"
    and "link_role_unique d"
  shows "link_role_unique (fst (insert_jobs dumps d jobs_list))
   \<and> snd (insert_jobs dumps d jobs_list) =
       int (length (rows (fst (insert_jobs dumps d jobs_list))) - length (rows d))"
  using insert_jobs_loop_unique [OF assms, of dumps 0] insert_jobs_loop_count [of d dumps jobs_list 0]
  by (simp add: insert_jobs_def)

lemma insert_jobs_calls_unique_when_keys_present:
  assumes "\<forall>jobs_list \<in> set calls. \<forall>job \<in> set jobs_list.
             job_link job \<noteq> None \<and> job_role job \<noteq> None"
    and "link_role_unique d"
  shows "link_role_unique (insert_jobs_calls dumps d calls)"
  using assms
proof (induction calls arbitrary: d)
  case Nil
  then show ?case by simp
next
  case (Cons jobs_list calls)
  from Cons.prems have "link_role_unique (fst (insert_jobs dumps d jobs_list))"
    using insert_jobs_unique_when_keys_present [of jobs_list d dumps] by simp
  with Cons.IH [of "fst (insert_jobs dumps d jobs_list)"] Cons.prems(1) show ?case
    by simp
qed

text \<open>
  C7. The claim promises that no two stored records share (link, role). \<open>insert_jobs\<close>
  looks for an existing row with the values \<open>job_data.get('link')\<close> and
  \<open>job_data.get('role')\<close>, which are \<open>None\<close> for a job without that key, so the lookup
  finds nothing; \<open>insert_job\<close> then stores the default \<open>N/A\<close> in its place. Inserting
  the same job without a link in two calls stores two records with the same pair, and
  each call reports one insertion. (For jobs that carry both keys the invariant holds:
  \<open>insert_jobs_calls_unique_when_keys_present\<close>.)
\<close>

theorem insert_jobs_missing_link_stores_duplicates:
  "insert_jobs example_dumps empty_db [scraped_job ''Acme'' ''Engineer'' None]
     = (\<lparr>rows = [\<lparr>row_id = 1, row_company = ''Acme'', row_role = ''Engineer'',
                   row_location = ''Remote'', row_link = ''N/A'', row_date_posted = ''2d'',
                   row_original_category = ''Software Engineer New Grad'',
                   row_fit_score = - 1, row_fit_category = ''unclassified'',
                   row_status = ''new'', row_raw_data = ''{}''\<rparr>], last_id = 1\<rparr>, 1)
   \<and> snd (insert_jobs example_dumps
            (fst (insert_jobs example_dumps empty_db [scraped_job ''Acme'' ''Engineer'' None]))
            [scraped_job ''Acme'' ''Engineer'' None]) = 1
   \<and> map row_link (rows (insert_jobs_calls example_dumps empty_db
        [[scraped_job ''Acme'' ''Engineer'' None], [scraped_job ''Acme'' ''Engineer'' None]]))
       = [''N/A'', ''N/A'']
   \<and> map row_role (rows (insert_jobs_calls example_dumps empty_db
        [[scraped_job ''Acme'' ''Engineer'' None], [scraped_job ''Acme'' ''Engineer'' None]]))
       = [''Engineer'', ''Engineer'']
   \<and> \<not> link_role_unique (insert_jobs_calls example_dumps empty_db
        [[scraped_job ''Acme'' ''Engineer'' None], [scraped_job ''Acme'' ''Engineer'' None]])"
  by code_simp

text \<open>
  C10. For every store, job id and status string, \<open>update_job_status\<close> keeps the number
  and order of the records and the id counter; the record with that id becomes the same
  record with the new status, every other record is unchanged, and every field other than
  the status is unchanged in all records.
\<close>

theorem update_job_status_frame:
  "length (rows (update_job_status d job_id new_status)) = length (rows d)
   \<and> last_id (update_job_status d job_id new_status) = last_id d
   \<and> (\<forall>i < length (rows d).
        (row_id (rows d ! i) = job_id \<longrightarrow>
           rows (update_job_status d job_id new_status) ! i
             = (rows d ! i)\<lparr>row_status := new_status\<rparr>)
      \<and> (row_id (rows d ! i) \<noteq> job_id \<longrightarrow>
           rows (update_job_status d job_id new_status) ! i = rows d ! i)
      \<and> row_id (rows (update_job_status d job_id new_status) ! i) = row_id (rows d ! i)
      \<and> row_company (rows (update_job_status d job_id new_status) ! i) = row_company (rows d ! i)
      \<and> row_role (rows (update_job_status d job_id new_status) ! i) = row_role (rows d ! i)
      \<and> row_location (rows (update_job_status d job_id new_status) ! i) = row_location (rows d ! i)
      \<and> row_link (rows (update_job_status d job_id new_status) ! i) = row_link (rows d ! i)
      \<and> row_date_posted (rows (update_job_status d job_id new_status) ! i)
          = row_date_posted (rows d ! i)
      \<and> row_original_category (rows (update_job_status d job_id new_status) ! i)
          = row_original_category (rows d ! i)
      \<and> row_fit_score (rows (update_job_status d job_id new_status) ! i)
          = row_fit_score (rows d ! i)
      \<and> row_fit_category (rows (update_job_status d job_id new_status) ! i)
          = row_fit_category (rows d ! i)
      \<and> row_raw_data (rows (update_job_status d job_id new_status) ! i)
          = row_raw_data (rows d ! i))"
  by (simp add: update_job_status_def)

text \<open>
  C6. For every score \<open>s\<close> and thresholds \<open>high\<close>, \<open>medium\<close>: the category is
  \<open>High Fit\<close> exactly when \<open>s \<ge> high\<close>, \<open>Medium Fit\<close> exactly when
  \<open>medium \<le> s < high\<close>, and \<open>Low Fit\<close> exactly when neither holds; a score equal to a
  threshold therefore falls in the higher category. \<open>categorize_jobs\<close> stores, for each
  job, the profile's aggregate score and its category under the thresholds the caller
  passes; without thresholds it uses 5 and 2.
\<close>

theorem fit_category_thresholds:
  "(fit_category_for s high medium = ''High Fit'') = (high \<le> s)
   \<and> (fit_category_for s high medium = ''Medium Fit'') = (medium \<le> s \<and> s < high)
   \<and> (fit_category_for s high medium = ''Low Fit'') = (s < high \<and> s < medium)
   \<and> categorize_jobs (Inr p) jobs_list high medium =
       map (\<lambda>job. job\<lparr>job_fit_score := Some (profile_score p job),
                       job_fit_category :=
                         Some (fit_category_for (profile_score p job) high medium)\<rparr>) jobs_list
   \<and> categorize_jobs_default tailor jobs_list = categorize_jobs tailor jobs_list 5 2"
  by (auto simp add: fit_category_for_def categorize_jobs_def categorize_job_def Let_def
      categorize_jobs_default_def)


theorem update_job_status_frame_witness:
  "length (rows two_jobs_db) = 2
   \<and> row_id (rows two_jobs_db ! 0) = 1
   \<and> rows (update_job_status two_jobs_db 1 ''applied'') ! 0
       = (rows two_jobs_db ! 0)\<lparr>row_status := ''applied''\<rparr>
   \<and> row_id (rows two_jobs_db ! 1) = 2
   \<and> rows (update_job_status two_jobs_db 1 ''applied'') ! 1 = rows two_jobs_db ! 1"
proof -
  have len: "length (rows two_jobs_db) = 2"
    by code_simp
  have id0: "row_id (rows two_jobs_db ! 0) = 1"
    by code_simp
  have id1: "row_id (rows two_jobs_db ! 1) = 2"
    by code_simp
  from update_job_status_frame [of two_jobs_db 1 "''applied''"]
  have all: "\<forall>i < length (rows two_jobs_db).
      (row_id (rows two_jobs_db ! i) = 1 \<longrightarrow>
         rows (update_job_status two_jobs_db 1 ''applied'') ! i
           = (rows two_jobs_db ! i)\<lparr>row_status := ''applied''\<rparr>)
      \<and> (row_id (rows two_jobs_db ! i) \<noteq> 1 \<longrightarrow>
         rows (update_job_status two_jobs_db 1 ''applied'') ! i = rows two_jobs_db ! i)"
    by blast
  from all len id0 have r0: "rows (update_job_status two_jobs_db 1 ''applied'') ! 0
      = (rows two_jobs_db ! 0)\<lparr>row_status := ''applied''\<rparr>"
    by simp
  from all len id1 have r1: "rows (update_job_status two_jobs_db 1 ''applied'') ! 1
      = rows two_jobs_db ! 1"
    by simp
  from len id0 id1 r0 r1 show ?thesis
    by blast
qed

theorem fit_category_thresholds_witness:
  "fit_category_for 5 5 2 = ''High Fit''
   \<and> fit_category_for 4 5 2 = ''Medium Fit''
   \<and> fit_category_for 2 5 2 = ''Medium Fit''
   \<and> fit_category_for 1 5 2 = ''Low Fit''"
proof -
  from fit_category_thresholds [of 5 5 2] have a: "fit_category_for 5 5 2 = ''High Fit''"
    by simp
  from fit_category_thresholds [of 4 5 2] have b: "fit_category_for 4 5 2 = ''Medium Fit''"
    by simp
  from fit_category_thresholds [of 2 5 2] have c: "fit_category_for 2 5 2 = ''Medium Fit''"
    by simp
  from fit_category_thresholds [of 1 5 2] have d: "fit_category_for 1 5 2 = ''Low Fit''"
    by simp
  from a b c d show ?thesis by blast
qed

section \<open>Profile store: round trip and creation\<close>

lemma load_profile_document:
  assumes "files (get_profile_path e profile_name) = Some (Document d)"
    and "read_error e (get_profile_path e profile_name) = None"
    and "schema_load e = None"
  shows "load_profile e files profile_name = (d, None)"
  using assms by (simp add: load_profile_def Let_def)

lemma create_new_profile_existing_loadable:
  assumes "files (get_profile_path e profile_name) = Some (Document d)"
    and "d \<noteq> JNull"
    and "read_error e (get_profile_path e profile_name) = None"
    and "schema_load e = None"
  shows "create_new_profile e files typed profile_name initial_data =
           Inr (files, False, ''Profile '' @ quoted profile_name @ '' already exists.'')"
  using assms by (simp add: create_new_profile_def load_profile_document)



text \<open>
  C9. The claim promises that creation fails and leaves an existing document alone.
  \<open>create_new_profile\<close> tests for an existing profile with
  \<open>load_profile(profile_name)[0] is not None\<close>, which is also false when the file exists
  but cannot be parsed. Here the file of profile \<open>alice\<close> exists and holds text that is
  not JSON: \<open>load_profile\<close> reports invalid JSON, and \<open>create_new_profile\<close> goes on,
  builds a new profile from the typed answers and overwrites the file, reporting success.
  (When the stored document loads, creation fails and changes nothing:
  \<open>create_new_profile_existing_loadable\<close>.)
\<close>

theorem create_new_profile_overwrites_unparsable_document:
  "broken_files (get_profile_path example_env ''alice'') = Some (Garbage ''{ personal_info: '')
   \<and> load_profile example_env broken_files ''alice''
       = (JNull, Some ''Error: Invalid JSON in profile file.'')
   \<and> create_new_profile example_env broken_files example_answers ''alice'' JNull =
        Inr (broken_files(''profiles/alice.json'' \<mapsto> Document alice_profile), True,
             ''Profile '' @ quoted ''alice'' @ '' saved successfully.'')"
  by (simp add: broken_files_def no_files_def get_profile_path_def os_path_join_def
      example_env_def load_profile_def create_new_profile_def save_profile_def
      validate_profile_def required_fields_validation_def dict_get_def dict_setitem_def
      dict_setdefault_def example_answers_def alice_profile_def Let_def)

section \<open>Worked examples\<close>

lemma calculate_keyword_score_spec_joined:
  "calculate_keyword_score T K = spec_score_joined T K"
  by (simp add: calculate_keyword_score_count spec_score_joined_def)

lemma with_defaults_all_set:
  "job_company (with_defaults dumps job) \<noteq> None
   \<and> job_role (with_defaults dumps job) \<noteq> None
   \<and> job_location (with_defaults dumps job) \<noteq> None
   \<and> job_link (with_defaults dumps job) \<noteq> None
   \<and> job_date_posted (with_defaults dumps job) \<noteq> None
   \<and> job_original_category (with_defaults dumps job) \<noteq> None
   \<and> job_fit_score (with_defaults dumps job) \<noteq> None
   \<and> job_fit_category (with_defaults dumps job) \<noteq> None
   \<and> job_status (with_defaults dumps job) \<noteq> None
   \<and> job_raw_data (with_defaults dumps job) \<noteq> None"
  by (simp add: with_defaults_def setdefault_def Let_def split: option.splits)

lemma ranked_profile_example:
  "map (work_score ''Seeking Python engineer'') (work_experience ranked_profile) = [0, 1, 2, 1]
   \<and> map exp_title (tailored_work_experience ranked_profile ''Seeking Python engineer'')
       = [''Python Engineer'', ''Intern'', ''Analyst'']"
  by code_simp

lemma categorize_jobs_example:
  "map job_fit_score
     (categorize_jobs_default (Inr demo_profile)
        [scraped_job ''Acme'' ''Python Engineer'' None, scraped_job ''Diner'' ''Cook'' None])
     = [Some 3, Some 0]
   \<and> map job_fit_category
     (categorize_jobs_default (Inr demo_profile)
        [scraped_job ''Acme'' ''Python Engineer'' None, scraped_job ''Diner'' ''Cook'' None])
     = [Some ''Medium Fit'', Some ''Low Fit'']
   \<and> categorize_jobs_default (Inl (ValueError ''Profile not found.''))
        [scraped_job ''Acme'' ''Python Engineer'' None] = []"
  by code_simp

lemma insert_jobs_same_link_twice_example:
  "rows (insert_jobs_calls example_dumps empty_db
     [[scraped_job ''Acme'' ''Engineer'' (Some ''http://a'')],
      [scraped_job ''Acme'' ''Engineer'' (Some ''http://a'')]])
     = rows (fst (insert_jobs example_dumps empty_db
         [scraped_job ''Acme'' ''Engineer'' (Some ''http://a'')]))
   \<and> snd (insert_jobs example_dumps
        (fst (insert_jobs example_dumps empty_db
           [scraped_job ''Acme'' ''Engineer'' (Some ''http://a'')]))
        [scraped_job ''Acme'' ''Engineer'' (Some ''http://a'')]) = 0"
  by code_simp

end
